theory Spec2Isabelle
  imports Complex_Main
begin

section \<open>JavaScript numbers\<close>

text \<open>
  The library computes with JavaScript Numbers. A Number is modelled as a finite real,
  one of the two infinities, or NaN. Division by zero, NaN propagation, comparison with
  NaN and truthiness follow ECMAScript. Finite doubles are taken as exact reals: a finite
  result is not rounded and never overflows to an infinity, and the sign of zero is not
  represented. The code differs from this in two places that matter below. Its sum
  \<open>radians + 2 * Math.PI\<close> can round to \<open>2 * Math.PI\<close> for a tiny negative angle, and
  \<open>theta\<close> is then exactly 360; and its difference of two coordinates near the largest
  double is \<open>Infinity\<close>. So the theorems bound \<open>theta\<close> by the closed interval, and
  speak of a finite speed only where the distance is finite.
\<close>

datatype jsnum = NaN | NInf | Fin real | PInf

text \<open>
  A variable declared with \<open>let x;\<close> holds \<open>undefined\<close> until it is assigned. The only
  values the library ever assigns to its variables are \<open>clientX\<close>/\<open>clientY\<close> of a touch
  (finite by the type of the DOM attribute) and \<open>Date.now()\<close>, so a variable is
  \<open>undefined\<close> (\<open>None\<close>) or a finite number.
\<close>

type_synonym jsval = "real option"

text \<open>ToNumber: \<open>undefined\<close> converts to NaN.\<close>

fun toNumber :: "jsval \<Rightarrow> jsnum" where
  "toNumber None = NaN"
| "toNumber (Some r) = Fin r"

text \<open>The binary \<open>-\<close> and \<open>+\<close> operators on Numbers.\<close>

fun js_sub :: "jsnum \<Rightarrow> jsnum \<Rightarrow> jsnum" where
  "js_sub NaN b = NaN"
| "js_sub a NaN = NaN"
| "js_sub (Fin a) (Fin b) = Fin (a - b)"
| "js_sub (Fin a) PInf = NInf"
| "js_sub (Fin a) NInf = PInf"
| "js_sub PInf PInf = NaN"
| "js_sub PInf b = PInf"
| "js_sub NInf NInf = NaN"
| "js_sub NInf b = NInf"

fun js_add :: "jsnum \<Rightarrow> jsnum \<Rightarrow> jsnum" where
  "js_add NaN b = NaN"
| "js_add a NaN = NaN"
| "js_add (Fin a) (Fin b) = Fin (a + b)"
| "js_add (Fin a) PInf = PInf"
| "js_add (Fin a) NInf = NInf"
| "js_add PInf NInf = NaN"
| "js_add PInf b = PInf"
| "js_add NInf PInf = NaN"
| "js_add NInf b = NInf"

text \<open>The \<open>*\<close> operator: infinity times zero is NaN, otherwise the signs multiply.\<close>

fun js_mul :: "jsnum \<Rightarrow> jsnum \<Rightarrow> jsnum" where
  "js_mul NaN b = NaN"
| "js_mul a NaN = NaN"
| "js_mul (Fin a) (Fin b) = Fin (a * b)"
| "js_mul (Fin a) PInf = (if a = 0 then NaN else if 0 < a then PInf else NInf)"
| "js_mul (Fin a) NInf = (if a = 0 then NaN else if 0 < a then NInf else PInf)"
| "js_mul PInf (Fin b) = (if b = 0 then NaN else if 0 < b then PInf else NInf)"
| "js_mul NInf (Fin b) = (if b = 0 then NaN else if 0 < b then NInf else PInf)"
| "js_mul PInf PInf = PInf"
| "js_mul PInf NInf = NInf"
| "js_mul NInf PInf = NInf"
| "js_mul NInf NInf = PInf"

text \<open>
  The \<open>/\<close> operator. Zero over zero is NaN; a non-zero finite number over zero is an
  infinity of the numerator's sign (the zero divisors met here are results of \<open>t - t\<close>,
  which is \<open>+0\<close>).
\<close>

fun js_div :: "jsnum \<Rightarrow> jsnum \<Rightarrow> jsnum" where
  "js_div NaN b = NaN"
| "js_div a NaN = NaN"
| "js_div (Fin a) (Fin b) =
     (if b \<noteq> 0 then Fin (a / b)
      else if a = 0 then NaN
      else if 0 < a then PInf else NInf)"
| "js_div (Fin a) PInf = Fin 0"
| "js_div (Fin a) NInf = Fin 0"
| "js_div PInf (Fin b) = (if b < 0 then NInf else PInf)"
| "js_div NInf (Fin b) = (if b < 0 then PInf else NInf)"
| "js_div PInf b = NaN"
| "js_div NInf b = NaN"

text \<open>The relational operators: every comparison with NaN is false.\<close>

fun js_lt :: "jsnum \<Rightarrow> jsnum \<Rightarrow> bool" where
  "js_lt NaN b = False"
| "js_lt a NaN = False"
| "js_lt (Fin a) (Fin b) = (a < b)"
| "js_lt (Fin a) PInf = True"
| "js_lt NInf (Fin b) = True"
| "js_lt NInf PInf = True"
| "js_lt a b = False"

definition js_gt :: "jsnum \<Rightarrow> jsnum \<Rightarrow> bool" where
  "js_gt a b = js_lt b a"

fun js_le :: "jsnum \<Rightarrow> jsnum \<Rightarrow> bool" where
  "js_le NaN b = False"
| "js_le a NaN = False"
| "js_le a b = (\<not> js_lt b a)"

text \<open>ToBoolean on a Number, and \<open>a || b\<close>: the left operand if it is truthy, else the right.\<close>

fun js_truthy :: "jsnum \<Rightarrow> bool" where
  "js_truthy NaN = False"
| "js_truthy (Fin r) = (r \<noteq> 0)"
| "js_truthy PInf = True"
| "js_truthy NInf = True"

definition js_or :: "jsnum \<Rightarrow> jsnum \<Rightarrow> jsnum" where
  "js_or a b = (if js_truthy a then a else b)"

subsection \<open>The Math object\<close>

definition Math_PI :: jsnum where
  "Math_PI = Fin pi"

fun Math_abs :: "jsnum \<Rightarrow> jsnum" where
  "Math_abs NaN = NaN"
| "Math_abs (Fin r) = Fin \<bar>r\<bar>"
| "Math_abs PInf = PInf"
| "Math_abs NInf = PInf"

text \<open>\<open>Math.hypot\<close>: an infinite argument gives \<open>Infinity\<close> even beside NaN; then NaN wins.\<close>

fun Math_hypot :: "jsnum \<Rightarrow> jsnum \<Rightarrow> jsnum" where
  "Math_hypot PInf b = PInf"
| "Math_hypot NInf b = PInf"
| "Math_hypot a PInf = PInf"
| "Math_hypot a NInf = PInf"
| "Math_hypot NaN b = NaN"
| "Math_hypot a NaN = NaN"
| "Math_hypot (Fin a) (Fin b) = Fin (sqrt (a * a + b * b))"

text \<open>
  \<open>Math.atan2(y, x)\<close> on finite arguments: the angle of the point \<open>(x, y)\<close> in
  \<open>(-\<pi>, \<pi>]\<close>, and \<open>0\<close> at the origin.
\<close>

definition atan2_real :: "real \<Rightarrow> real \<Rightarrow> real" where
  "atan2_real y x =
     (if 0 < x then arctan (y / x)
      else if x < 0 then (if 0 \<le> y then arctan (y / x) + pi else arctan (y / x) - pi)
      else if 0 < y then pi / 2
      else if y < 0 then - (pi / 2)
      else 0)"

fun Math_atan2 :: "jsnum \<Rightarrow> jsnum \<Rightarrow> jsnum" where
  "Math_atan2 NaN x = NaN"
| "Math_atan2 y NaN = NaN"
| "Math_atan2 (Fin y) (Fin x) = Fin (atan2_real y x)"
| "Math_atan2 (Fin y) PInf = Fin 0"
| "Math_atan2 (Fin y) NInf = (if 0 \<le> y then Fin pi else Fin (- pi))"
| "Math_atan2 PInf (Fin x) = Fin (pi / 2)"
| "Math_atan2 NInf (Fin x) = Fin (- (pi / 2))"
| "Math_atan2 PInf PInf = Fin (pi / 4)"
| "Math_atan2 PInf NInf = Fin (3 * pi / 4)"
| "Math_atan2 NInf PInf = Fin (- (pi / 4))"
| "Math_atan2 NInf NInf = Fin (- (3 * pi / 4))"

section \<open>The module state and its inputs\<close>

text \<open>
  The closure variables of \<open>SwipeEvents\<close>: \<open>let logEvents = false; let originX; ...\<close>.
\<close>

record session =
  logEvents :: bool
  originX :: jsval
  originY :: jsval
  lastX :: jsval
  lastY :: jsval
  firstEvent :: jsval
  lastEvent :: jsval

definition initial_session :: session where
  "initial_session =
     \<lparr>logEvents = False, originX = None, originY = None, lastX = None, lastY = None,
      firstEvent = None, lastEvent = None\<rparr>"

text \<open>
  A touch event as the listeners read it: its \<open>type\<close> and the client coordinates of
  \<open>changedTouches[0]\<close>. The value \<open>Date.now()\<close> returns while the listener runs is an
  input of the listener, a whole number of milliseconds.
\<close>

datatype event_type = Touchstart | Touchmove | Touchend | Touchcancel

record touch_event =
  etype :: event_type
  clientX :: real
  clientY :: real

text \<open>
  The \<open>detail\<close> object of the published \<open>swipe\<close> event. The keys are the source's;
  \<open>originX\<close> and \<open>originY\<close> carry the prefix \<open>detail_\<close> to keep them apart from the
  variables of the same name.
\<close>

record swipe_detail =
  event :: touch_event
  eventTime :: jsval
  duration :: jsnum
  initial :: bool
  ongoing :: bool
  cardinal4 :: string
  cardinal8 :: string
  theta :: jsnum
  detail_originX :: jsval
  detail_originY :: jsval
  currentX :: jsval
  currentY :: jsval
  totalDistanceX :: jsnum
  totalDistanceY :: jsnum
  totalDistance :: jsnum
  latestDistanceX :: jsnum
  latestDistanceY :: jsnum
  latestDistance :: jsnum
  overallSpeedX :: jsnum
  overallSpeedY :: jsnum
  overallSpeed :: jsnum
  latestSpeedX :: jsnum
  latestSpeedY :: jsnum
  latestSpeed :: jsnum

section \<open>Computing the telemetry\<close>

text \<open>The locals of \<open>fireSwipeEvent\<close> that are not published but that claims speak about.\<close>

definition millisSinceLastEvent :: "jsval \<Rightarrow> session \<Rightarrow> jsnum" where
  "millisSinceLastEvent evTime s = js_sub (toNumber evTime) (toNumber (lastEvent s))"

definition totalChangeInX :: "jsval \<Rightarrow> session \<Rightarrow> jsnum" where
  "totalChangeInX cX s = js_sub (toNumber cX) (toNumber (originX s))"

definition totalChangeInY :: "jsval \<Rightarrow> session \<Rightarrow> jsnum" where
  "totalChangeInY cY s = js_sub (toNumber cY) (toNumber (originY s))"

definition horizontalDir :: "jsval \<Rightarrow> jsval \<Rightarrow> string" where
  "horizontalDir oX cX = (if js_gt (toNumber oX) (toNumber cX) then ''W'' else ''E'')"

definition verticalDir :: "jsval \<Rightarrow> jsval \<Rightarrow> string" where
  "verticalDir oY cY = (if js_gt (toNumber oY) (toNumber cY) then ''N'' else ''S'')"

definition tangent :: "jsnum \<Rightarrow> jsnum \<Rightarrow> jsnum" where
  "tangent tdY tdX = js_mul (Math_atan2 tdY tdX) (js_div (Fin 180) Math_PI)"

definition radians :: "jsnum \<Rightarrow> jsnum \<Rightarrow> jsnum" where
  "radians dY dX = Math_atan2 dY dX"

text \<open>
  \<open>fireSwipeEvent(currentX, currentY, eventTime, e)\<close> reads the closure variables and
  dispatches one \<open>swipe\<close> event; the model returns the \<open>detail\<close> it publishes.
\<close>

definition fireSwipeEvent :: "jsval \<Rightarrow> jsval \<Rightarrow> jsval \<Rightarrow> touch_event \<Rightarrow> session \<Rightarrow> swipe_detail" where
  "fireSwipeEvent cX cY evTime e s =
     (let init = (etype e = Touchstart);
          ong = (init \<or> etype e = Touchmove);
          tdX = Math_abs (totalChangeInX cX s);
          tdY = Math_abs (totalChangeInY cY s);
          td = Math_hypot tdX tdY;
          ldX = Math_abs (js_sub (toNumber cX) (toNumber (lastX s)));
          ldY = Math_abs (js_sub (toNumber cY) (toNumber (lastY s)));
          ld = Math_hypot ldX ldY;
          dur = js_sub (toNumber evTime) (toNumber (firstEvent s));
          osX = js_or (js_div tdX dur) (Fin 0);
          osY = js_or (js_div tdY dur) (Fin 0);
          os = js_or (js_div td dur) (Fin 0);
          ms = millisSinceLastEvent evTime s;
          lsX = js_or (js_div ldX ms) (Fin 0);
          lsY = js_or (js_div ldY ms) (Fin 0);
          ls = js_or (js_div ld ms) (Fin 0);
          hDir = horizontalDir (originX s) cX;
          vDir = verticalDir (originY s) cY;
          tang = tangent tdY tdX;
          c4 = (if js_gt tdX tdY then hDir else vDir);
          c8 = (if js_gt tang (Fin 22.5) \<and> js_lt tang (Fin 67.5) then vDir @ hDir else c4);
          rad = radians (totalChangeInY cY s) (totalChangeInX cX s);
          th = js_mul (if js_lt rad (Fin 0) then js_add rad (js_mul (Fin 2) Math_PI) else rad)
                 (js_div (Fin 180) Math_PI)
      in \<lparr>event = e, eventTime = evTime, duration = dur, initial = init, ongoing = ong,
          cardinal4 = c4, cardinal8 = c8, theta = th,
          detail_originX = originX s, detail_originY = originY s,
          currentX = cX, currentY = cY,
          totalDistanceX = tdX, totalDistanceY = tdY, totalDistance = td,
          latestDistanceX = ldX, latestDistanceY = ldY, latestDistance = ld,
          overallSpeedX = osX, overallSpeedY = osY, overallSpeed = os,
          latestSpeedX = lsX, latestSpeedY = lsY, latestSpeed = ls\<rparr>)"

section \<open>The touch listeners\<close>

text \<open>
  Each listener takes the event, the reading of \<open>Date.now()\<close> and the variables, and
  returns the published \<open>detail\<close> with the variables as it leaves them.
\<close>

definition touchstart :: "touch_event \<Rightarrow> int \<Rightarrow> session \<Rightarrow> swipe_detail \<times> session" where
  "touchstart e now s =
     (let s1 = s\<lparr>originX := Some (clientX e), originY := Some (clientY e),
                 firstEvent := Some (of_int now)\<rparr>;
          s2 = s1\<lparr>lastX := originX s1, lastY := originY s1, lastEvent := firstEvent s1\<rparr>
      in (fireSwipeEvent (originX s2) (originY s2) (firstEvent s2) e s2, s2))"

definition touchmove :: "touch_event \<Rightarrow> int \<Rightarrow> session \<Rightarrow> swipe_detail \<times> session" where
  "touchmove e now s =
     (let touchX = Some (clientX e);
          touchY = Some (clientY e);
          evTime = Some (of_int now);
          d = fireSwipeEvent touchX touchY evTime e s
      in (d, s\<lparr>lastX := touchX, lastY := touchY, lastEvent := evTime\<rparr>))"

definition touchend :: "touch_event \<Rightarrow> int \<Rightarrow> session \<Rightarrow> swipe_detail \<times> session" where
  "touchend e now s = (fireSwipeEvent (lastX s) (lastY s) (Some (of_int now)) e s, s)"

definition touchcancel :: "touch_event \<Rightarrow> int \<Rightarrow> session \<Rightarrow> swipe_detail \<times> session" where
  "touchcancel e now s = (fireSwipeEvent (lastX s) (lastY s) (Some (of_int now)) e s, s)"

text \<open>The document delivers an event to the listener registered for its type.\<close>

definition dispatch :: "touch_event \<Rightarrow> int \<Rightarrow> session \<Rightarrow> swipe_detail \<times> session" where
  "dispatch e now s =
     (case etype e of
        Touchstart \<Rightarrow> touchstart e now s
      | Touchmove \<Rightarrow> touchmove e now s
      | Touchend \<Rightarrow> touchend e now s
      | Touchcancel \<Rightarrow> touchcancel e now s)"

text \<open>A sequence of events, each with its clock reading: the variables after all of them.\<close>

fun run :: "(touch_event \<times> int) list \<Rightarrow> session \<Rightarrow> session" where
  "run [] s = s"
| "run ((e, now) # es) s = run es (snd (dispatch e now s))"

section \<open>The public functions\<close>

text \<open>
  \<open>logEvents\<close> only decides whether the library's own \<open>swipe\<close> listener prints the
  record to the console; the console is not modelled. Each function returns its result
  with the variables as it leaves them.
\<close>

definition telemetryLoggingEnabled :: "session \<Rightarrow> bool \<times> session" where
  "telemetryLoggingEnabled s = (logEvents s, s)"

definition toggleTelemetryLogging :: "session \<Rightarrow> bool \<times> session" where
  "toggleTelemetryLogging s =
     (let s' = s\<lparr>logEvents := \<not> logEvents s\<rparr> in (logEvents s', s'))"

section \<open>Auxiliary notions\<close>

text \<open>A \<open>touchstart\<close> has been handled: none of the six variables is \<open>undefined\<close>.\<close>

definition gesture_begun :: "session \<Rightarrow> bool" where
  "gesture_begun s =
     (originX s \<noteq> None \<and> originY s \<noteq> None \<and> lastX s \<noteq> None \<and> lastY s \<noteq> None \<and>
      firstEvent s \<noteq> None \<and> lastEvent s \<noteq> None)"

text \<open>
  What each listener hands to \<open>fireSwipeEvent\<close>. The point: \<open>touchstart\<close> and
  \<open>touchmove\<close> pass the coordinates of the event, \<open>touchend\<close> and \<open>touchcancel\<close> pass
  \<open>lastX\<close>, \<open>lastY\<close>. The variables it reads: \<open>touchstart\<close> has assigned all six
  before the call, the other listeners have assigned none.
\<close>

definition published_point :: "touch_event \<Rightarrow> session \<Rightarrow> jsval \<times> jsval" where
  "published_point e s =
     (case etype e of
        Touchstart \<Rightarrow> (Some (clientX e), Some (clientY e))
      | Touchmove \<Rightarrow> (Some (clientX e), Some (clientY e))
      | Touchend \<Rightarrow> (lastX s, lastY s)
      | Touchcancel \<Rightarrow> (lastX s, lastY s))"

definition firing_session :: "touch_event \<Rightarrow> int \<Rightarrow> session \<Rightarrow> session" where
  "firing_session e now s =
     (case etype e of
        Touchstart \<Rightarrow>
          s\<lparr>originX := Some (clientX e), originY := Some (clientY e),
            firstEvent := Some (of_int now),
            lastX := Some (clientX e), lastY := Some (clientY e), lastEvent := Some (of_int now)\<rparr>
      | Touchmove \<Rightarrow> s
      | Touchend \<Rightarrow> s
      | Touchcancel \<Rightarrow> s)"

text \<open>Concrete inputs: an event of a given type at a given point, and started gestures.\<close>

definition touch :: "event_type \<Rightarrow> real \<Rightarrow> real \<Rightarrow> touch_event" where
  "touch k x y = \<lparr>etype = k, clientX = x, clientY = y\<rparr>"

definition started_at_origin :: session where
  "started_at_origin = snd (dispatch (touch Touchstart 0 0) 0 initial_session)"

definition started_at_100 :: session where
  "started_at_100 = snd (dispatch (touch Touchstart 100 100) 0 initial_session)"

definition moved_to_3_4 :: session where
  "moved_to_3_4 = snd (dispatch (touch Touchmove 3 4) 10 started_at_origin)"

definition moved_to_5_0 :: session where
  "moved_to_5_0 = snd (dispatch (touch Touchmove 5 0) 10 started_at_origin)"

section \<open>Basic facts\<close>

lemmas eval_defs = dispatch_def touchstart_def touchmove_def touchend_def touchcancel_def
  initial_session_def fireSwipeEvent_def Let_def totalChangeInX_def totalChangeInY_def
  millisSinceLastEvent_def js_or_def js_gt_def horizontalDir_def verticalDir_def
  tangent_def radians_def Math_PI_def atan2_real_def touch_def
  started_at_origin_def started_at_100_def moved_to_3_4_def moved_to_5_0_def

lemma fire_fields:
  "event (fireSwipeEvent cX cY t e s) = e"
  "eventTime (fireSwipeEvent cX cY t e s) = t"
  "duration (fireSwipeEvent cX cY t e s) = js_sub (toNumber t) (toNumber (firstEvent s))"
  "initial (fireSwipeEvent cX cY t e s) = (etype e = Touchstart)"
  "ongoing (fireSwipeEvent cX cY t e s) = (etype e = Touchstart \<or> etype e = Touchmove)"
  "detail_originX (fireSwipeEvent cX cY t e s) = originX s"
  "detail_originY (fireSwipeEvent cX cY t e s) = originY s"
  "currentX (fireSwipeEvent cX cY t e s) = cX"
  "currentY (fireSwipeEvent cX cY t e s) = cY"
  "totalDistanceX (fireSwipeEvent cX cY t e s) = Math_abs (totalChangeInX cX s)"
  "totalDistanceY (fireSwipeEvent cX cY t e s) = Math_abs (totalChangeInY cY s)"
  "totalDistance (fireSwipeEvent cX cY t e s) =
     Math_hypot (Math_abs (totalChangeInX cX s)) (Math_abs (totalChangeInY cY s))"
  "latestDistanceX (fireSwipeEvent cX cY t e s) = Math_abs (js_sub (toNumber cX) (toNumber (lastX s)))"
  "latestDistanceY (fireSwipeEvent cX cY t e s) = Math_abs (js_sub (toNumber cY) (toNumber (lastY s)))"
  "latestDistance (fireSwipeEvent cX cY t e s) =
     Math_hypot (Math_abs (js_sub (toNumber cX) (toNumber (lastX s))))
       (Math_abs (js_sub (toNumber cY) (toNumber (lastY s))))"
  by (simp_all add: fireSwipeEvent_def Let_def)

lemma fire_speeds:
  "overallSpeedX (fireSwipeEvent cX cY t e s) =
     js_or (js_div (totalDistanceX (fireSwipeEvent cX cY t e s)) (duration (fireSwipeEvent cX cY t e s))) (Fin 0)"
  "overallSpeedY (fireSwipeEvent cX cY t e s) =
     js_or (js_div (totalDistanceY (fireSwipeEvent cX cY t e s)) (duration (fireSwipeEvent cX cY t e s))) (Fin 0)"
  "overallSpeed (fireSwipeEvent cX cY t e s) =
     js_or (js_div (totalDistance (fireSwipeEvent cX cY t e s)) (duration (fireSwipeEvent cX cY t e s))) (Fin 0)"
  "latestSpeedX (fireSwipeEvent cX cY t e s) =
     js_or (js_div (latestDistanceX (fireSwipeEvent cX cY t e s)) (millisSinceLastEvent t s)) (Fin 0)"
  "latestSpeedY (fireSwipeEvent cX cY t e s) =
     js_or (js_div (latestDistanceY (fireSwipeEvent cX cY t e s)) (millisSinceLastEvent t s)) (Fin 0)"
  "latestSpeed (fireSwipeEvent cX cY t e s) =
     js_or (js_div (latestDistance (fireSwipeEvent cX cY t e s)) (millisSinceLastEvent t s)) (Fin 0)"
  by (simp_all add: fireSwipeEvent_def Let_def)

lemma fire_directions:
  "cardinal4 (fireSwipeEvent cX cY t e s) =
     (if js_gt (totalDistanceX (fireSwipeEvent cX cY t e s)) (totalDistanceY (fireSwipeEvent cX cY t e s))
      then horizontalDir (originX s) cX else verticalDir (originY s) cY)"
  "cardinal8 (fireSwipeEvent cX cY t e s) =
     (if js_gt (tangent (totalDistanceY (fireSwipeEvent cX cY t e s)) (totalDistanceX (fireSwipeEvent cX cY t e s))) (Fin 22.5)
       \<and> js_lt (tangent (totalDistanceY (fireSwipeEvent cX cY t e s)) (totalDistanceX (fireSwipeEvent cX cY t e s))) (Fin 67.5)
      then verticalDir (originY s) cY @ horizontalDir (originX s) cX
      else cardinal4 (fireSwipeEvent cX cY t e s))"
  "theta (fireSwipeEvent cX cY t e s) =
     js_mul (if js_lt (radians (totalChangeInY cY s) (totalChangeInX cX s)) (Fin 0)
             then js_add (radians (totalChangeInY cY s) (totalChangeInX cX s)) (js_mul (Fin 2) Math_PI)
             else radians (totalChangeInY cY s) (totalChangeInX cX s))
       (js_div (Fin 180) Math_PI)"
  by (simp_all add: fireSwipeEvent_def Let_def)

lemma dispatch_start:
  "etype e = Touchstart \<Longrightarrow> dispatch e now s = touchstart e now s"
  by (simp add: dispatch_def)

lemma dispatch_move:
  "etype e = Touchmove \<Longrightarrow> dispatch e now s = touchmove e now s"
  by (simp add: dispatch_def)

lemma dispatch_end:
  "etype e = Touchend \<Longrightarrow> dispatch e now s = touchend e now s"
  by (simp add: dispatch_def)

lemma dispatch_cancel:
  "etype e = Touchcancel \<Longrightarrow> dispatch e now s = touchcancel e now s"
  by (simp add: dispatch_def)

lemma snd_touchstart:
  "snd (touchstart e now s) =
     s\<lparr>originX := Some (clientX e), originY := Some (clientY e), firstEvent := Some (of_int now),
       lastX := Some (clientX e), lastY := Some (clientY e), lastEvent := Some (of_int now)\<rparr>"
  by (simp add: touchstart_def Let_def)

lemma fst_touchstart:
  "fst (touchstart e now s) =
     fireSwipeEvent (Some (clientX e)) (Some (clientY e)) (Some (of_int now)) e (snd (touchstart e now s))"
  by (simp add: touchstart_def Let_def)

lemma snd_touchmove:
  "snd (touchmove e now s) =
     s\<lparr>lastX := Some (clientX e), lastY := Some (clientY e), lastEvent := Some (of_int now)\<rparr>"
  by (simp add: touchmove_def Let_def)

lemma fst_touchmove:
  "fst (touchmove e now s) =
     fireSwipeEvent (Some (clientX e)) (Some (clientY e)) (Some (of_int now)) e s"
  by (simp add: touchmove_def Let_def)

lemma touchend_eq: "touchend e now s = (fireSwipeEvent (lastX s) (lastY s) (Some (of_int now)) e s, s)"
  by (simp add: touchend_def)

lemma touchcancel_eq: "touchcancel e now s = (fireSwipeEvent (lastX s) (lastY s) (Some (of_int now)) e s, s)"
  by (simp add: touchcancel_def)

text \<open>Every transition publishes the record that one call of \<open>fireSwipeEvent\<close> computes.\<close>

lemma dispatch_fires:
  "\<exists>cX cY s'. fst (dispatch e now s) = fireSwipeEvent cX cY (Some (of_int now)) e s'"
proof (cases "etype e")
  case Touchstart
  then show ?thesis using fst_touchstart by (metis dispatch_start)
next
  case Touchmove
  then show ?thesis using fst_touchmove by (metis dispatch_move)
next
  case Touchend
  then show ?thesis by (metis dispatch_end touchend_eq fst_conv)
next
  case Touchcancel
  then show ?thesis by (metis dispatch_cancel touchcancel_eq fst_conv)
qed


lemma gesture_begun_start: "gesture_begun (snd (touchstart e now s))"
  by (simp add: snd_touchstart gesture_begun_def)

lemma dispatch_fires_begun:
  assumes "etype e = Touchstart \<or> gesture_begun s"
  shows "\<exists>cX cY s'. fst (dispatch e now s) = fireSwipeEvent (Some cX) (Some cY) (Some (of_int now)) e s'
           \<and> gesture_begun s'"
proof (cases "etype e")
  case Touchstart
  then show ?thesis using fst_touchstart gesture_begun_start by (metis dispatch_start)
next
  case Touchmove
  with assms have "gesture_begun s" by simp
  with Touchmove show ?thesis using fst_touchmove by (metis dispatch_move)
next
  case Touchend
  with assms have b: "gesture_begun s" by simp
  then obtain x y where "lastX s = Some x" "lastY s = Some y" by (auto simp add: gesture_begun_def)
  with Touchend b show ?thesis by (metis dispatch_end touchend_eq fst_conv)
next
  case Touchcancel
  with assms have b: "gesture_begun s" by simp
  then obtain x y where "lastX s = Some x" "lastY s = Some y" by (auto simp add: gesture_begun_def)
  with Touchcancel b show ?thesis by (metis dispatch_cancel touchcancel_eq fst_conv)
qed

lemma gesture_begun_dispatch:
  "etype e = Touchstart \<or> gesture_begun s \<Longrightarrow> gesture_begun (snd (dispatch e now s))"
  by (cases "etype e")
     (auto simp add: dispatch_def snd_touchstart snd_touchmove touchend_eq touchcancel_eq gesture_begun_def)

lemma gesture_begun_run:
  "gesture_begun s \<Longrightarrow> gesture_begun (run es s)"
proof (induction es arbitrary: s)
  case Nil
  then show ?case by simp
next
  case (Cons p es)
  then show ?case by (cases p) (simp add: gesture_begun_dispatch)
qed

lemma dispatch_fire_eq:
  "fst (dispatch e now s) =
     fireSwipeEvent (fst (published_point e s)) (snd (published_point e s)) (Some (of_int now)) e
       (firing_session e now s)"
proof (cases "etype e")
  case Touchstart
  then show ?thesis
    by (simp add: dispatch_start fst_touchstart snd_touchstart published_point_def firing_session_def)
next
  case Touchmove
  then show ?thesis
    by (simp add: dispatch_move fst_touchmove published_point_def firing_session_def)
next
  case Touchend
  then show ?thesis
    by (simp add: dispatch_end touchend_eq published_point_def firing_session_def)
next
  case Touchcancel
  then show ?thesis
    by (simp add: dispatch_cancel touchcancel_eq published_point_def firing_session_def)
qed

lemma begun_displacements:
  assumes "etype e = Touchstart \<or> gesture_begun s"
  shows "\<exists>px py ox oy. published_point e s = (Some px, Some py) \<and>
           originX (firing_session e now s) = Some ox \<and> originY (firing_session e now s) = Some oy"
  using assms
  by (cases "etype e") (auto simp add: published_point_def firing_session_def gesture_begun_def)

section \<open>Speeds and the division guard\<close>

lemma js_or_zero_not_NaN: "js_or a (Fin 0) \<noteq> NaN"
  by (cases a) (simp_all add: js_or_def)

lemma js_or_zero_over_zero: "js_or (js_div (Fin 0) (Fin 0)) (Fin 0) = Fin 0"
  by (simp add: js_or_def)

lemma whole_ms_speed:
  assumes "k \<noteq> 0"
  shows "\<exists>v. js_or (js_div (Fin x) (Fin (of_int k))) (Fin 0) = Fin v \<and> \<bar>v\<bar> \<le> \<bar>x\<bar>"
proof -
  have k1: "1 \<le> \<bar>real_of_int k\<bar>"
    using assms by linarith
  have "\<bar>x / of_int k\<bar> = \<bar>x\<bar> / \<bar>real_of_int k\<bar>"
    by simp
  also have "\<dots> \<le> \<bar>x\<bar> / 1"
    using k1 by (intro divide_left_mono) simp_all
  finally have b: "\<bar>x / of_int k\<bar> \<le> \<bar>x\<bar>"
    by simp
  have "js_or (js_div (Fin x) (Fin (of_int k))) (Fin 0) = Fin (x / of_int k)"
    using assms by (simp add: js_or_def)
  with b show ?thesis
    by blast
qed

text \<open>
  Every transition publishes the record of one call of \<open>fireSwipeEvent\<close>
  (\<open>dispatch_fires\<close>), so a statement about all calls covers every transition.
\<close>

text \<open>
  Claim C1, as the code has it. With the distances and the two times computed from the
  point, the timestamp and the variables as \<open>fireSwipeEvent\<close> does, every speed field is
  \<open>(distance / time) || 0\<close>. No speed field is ever NaN. A speed field whose denominator
  (\<open>duration\<close>, or the milliseconds since the last event) is zero and whose distance is
  zero equals 0. A speed field whose denominator is a whole number of milliseconds other
  than zero and whose distance is a finite number is a finite number, in absolute value
  at most the distance.
\<close>

theorem C1_speed_fields:
  "let d = fireSwipeEvent cX cY t e s; ms = millisSinceLastEvent t s in
     (totalDistanceX d = Math_abs (js_sub (toNumber cX) (toNumber (originX s))) \<and>
      totalDistanceY d = Math_abs (js_sub (toNumber cY) (toNumber (originY s))) \<and>
      totalDistance d = Math_hypot (totalDistanceX d) (totalDistanceY d) \<and>
      latestDistanceX d = Math_abs (js_sub (toNumber cX) (toNumber (lastX s))) \<and>
      latestDistanceY d = Math_abs (js_sub (toNumber cY) (toNumber (lastY s))) \<and>
      latestDistance d = Math_hypot (latestDistanceX d) (latestDistanceY d) \<and>
      duration d = js_sub (toNumber t) (toNumber (firstEvent s)) \<and>
      ms = js_sub (toNumber t) (toNumber (lastEvent s))) \<and>
     (overallSpeedX d = js_or (js_div (totalDistanceX d) (duration d)) (Fin 0) \<and>
      overallSpeedY d = js_or (js_div (totalDistanceY d) (duration d)) (Fin 0) \<and>
      overallSpeed d = js_or (js_div (totalDistance d) (duration d)) (Fin 0) \<and>
      latestSpeedX d = js_or (js_div (latestDistanceX d) ms) (Fin 0) \<and>
      latestSpeedY d = js_or (js_div (latestDistanceY d) ms) (Fin 0) \<and>
      latestSpeed d = js_or (js_div (latestDistance d) ms) (Fin 0)) \<and>
     (overallSpeedX d \<noteq> NaN \<and> overallSpeedY d \<noteq> NaN \<and> overallSpeed d \<noteq> NaN \<and>
      latestSpeedX d \<noteq> NaN \<and> latestSpeedY d \<noteq> NaN \<and> latestSpeed d \<noteq> NaN) \<and>
     (duration d = Fin 0 \<longrightarrow>
        (totalDistanceX d = Fin 0 \<longrightarrow> overallSpeedX d = Fin 0) \<and>
        (totalDistanceY d = Fin 0 \<longrightarrow> overallSpeedY d = Fin 0) \<and>
        (totalDistance d = Fin 0 \<longrightarrow> overallSpeed d = Fin 0)) \<and>
     (ms = Fin 0 \<longrightarrow>
        (latestDistanceX d = Fin 0 \<longrightarrow> latestSpeedX d = Fin 0) \<and>
        (latestDistanceY d = Fin 0 \<longrightarrow> latestSpeedY d = Fin 0) \<and>
        (latestDistance d = Fin 0 \<longrightarrow> latestSpeed d = Fin 0)) \<and>
     (\<forall>k x. k \<noteq> 0 \<and> duration d = Fin (of_int k) \<longrightarrow>
        (totalDistanceX d = Fin x \<longrightarrow> (\<exists>v. overallSpeedX d = Fin v \<and> \<bar>v\<bar> \<le> \<bar>x\<bar>)) \<and>
        (totalDistanceY d = Fin x \<longrightarrow> (\<exists>v. overallSpeedY d = Fin v \<and> \<bar>v\<bar> \<le> \<bar>x\<bar>)) \<and>
        (totalDistance d = Fin x \<longrightarrow> (\<exists>v. overallSpeed d = Fin v \<and> \<bar>v\<bar> \<le> \<bar>x\<bar>))) \<and>
     (\<forall>k x. k \<noteq> 0 \<and> ms = Fin (of_int k) \<longrightarrow>
        (latestDistanceX d = Fin x \<longrightarrow> (\<exists>v. latestSpeedX d = Fin v \<and> \<bar>v\<bar> \<le> \<bar>x\<bar>)) \<and>
        (latestDistanceY d = Fin x \<longrightarrow> (\<exists>v. latestSpeedY d = Fin v \<and> \<bar>v\<bar> \<le> \<bar>x\<bar>)) \<and>
        (latestDistance d = Fin x \<longrightarrow> (\<exists>v. latestSpeed d = Fin v \<and> \<bar>v\<bar> \<le> \<bar>x\<bar>)))"
proof -
  let ?d = "fireSwipeEvent cX cY t e s"
  let ?ms = "millisSinceLastEvent t s"
  have ties: "totalDistanceX ?d = Math_abs (js_sub (toNumber cX) (toNumber (originX s)))"
    "totalDistanceY ?d = Math_abs (js_sub (toNumber cY) (toNumber (originY s)))"
    "totalDistance ?d = Math_hypot (totalDistanceX ?d) (totalDistanceY ?d)"
    "latestDistanceX ?d = Math_abs (js_sub (toNumber cX) (toNumber (lastX s)))"
    "latestDistanceY ?d = Math_abs (js_sub (toNumber cY) (toNumber (lastY s)))"
    "latestDistance ?d = Math_hypot (latestDistanceX ?d) (latestDistanceY ?d)"
    "duration ?d = js_sub (toNumber t) (toNumber (firstEvent s))"
    "?ms = js_sub (toNumber t) (toNumber (lastEvent s))"
    by (simp_all add: fire_fields totalChangeInX_def totalChangeInY_def millisSinceLastEvent_def)
  have eqs: "overallSpeedX ?d = js_or (js_div (totalDistanceX ?d) (duration ?d)) (Fin 0)"
    "overallSpeedY ?d = js_or (js_div (totalDistanceY ?d) (duration ?d)) (Fin 0)"
    "overallSpeed ?d = js_or (js_div (totalDistance ?d) (duration ?d)) (Fin 0)"
    "latestSpeedX ?d = js_or (js_div (latestDistanceX ?d) ?ms) (Fin 0)"
    "latestSpeedY ?d = js_or (js_div (latestDistanceY ?d) ?ms) (Fin 0)"
    "latestSpeed ?d = js_or (js_div (latestDistance ?d) ?ms) (Fin 0)"
    by (rule fire_speeds)+
  have nan: "overallSpeedX ?d \<noteq> NaN" "overallSpeedY ?d \<noteq> NaN" "overallSpeed ?d \<noteq> NaN"
    "latestSpeedX ?d \<noteq> NaN" "latestSpeedY ?d \<noteq> NaN" "latestSpeed ?d \<noteq> NaN"
    by (simp_all only: fire_speeds js_or_zero_not_NaN not_False_eq_True)
  have zero_o: "duration ?d = Fin 0 \<Longrightarrow> totalDistanceX ?d = Fin 0 \<Longrightarrow> overallSpeedX ?d = Fin 0"
    "duration ?d = Fin 0 \<Longrightarrow> totalDistanceY ?d = Fin 0 \<Longrightarrow> overallSpeedY ?d = Fin 0"
    "duration ?d = Fin 0 \<Longrightarrow> totalDistance ?d = Fin 0 \<Longrightarrow> overallSpeed ?d = Fin 0"
    by (simp_all only: fire_speeds js_or_zero_over_zero)
  have zero_l: "?ms = Fin 0 \<Longrightarrow> latestDistanceX ?d = Fin 0 \<Longrightarrow> latestSpeedX ?d = Fin 0"
    "?ms = Fin 0 \<Longrightarrow> latestDistanceY ?d = Fin 0 \<Longrightarrow> latestSpeedY ?d = Fin 0"
    "?ms = Fin 0 \<Longrightarrow> latestDistance ?d = Fin 0 \<Longrightarrow> latestSpeed ?d = Fin 0"
    by (simp_all only: fire_speeds js_or_zero_over_zero)
  have whole_o: "\<exists>v. overallSpeedX ?d = Fin v \<and> \<bar>v\<bar> \<le> \<bar>x\<bar>"
    if "k \<noteq> 0" "duration ?d = Fin (of_int k)" "totalDistanceX ?d = Fin x" for k x
    unfolding eqs(1) that(2,3) using that(1) by (rule whole_ms_speed)
  have whole_oy: "\<exists>v. overallSpeedY ?d = Fin v \<and> \<bar>v\<bar> \<le> \<bar>x\<bar>"
    if "k \<noteq> 0" "duration ?d = Fin (of_int k)" "totalDistanceY ?d = Fin x" for k x
    unfolding eqs(2) that(2,3) using that(1) by (rule whole_ms_speed)
  have whole_ot: "\<exists>v. overallSpeed ?d = Fin v \<and> \<bar>v\<bar> \<le> \<bar>x\<bar>"
    if "k \<noteq> 0" "duration ?d = Fin (of_int k)" "totalDistance ?d = Fin x" for k x
    unfolding eqs(3) that(2,3) using that(1) by (rule whole_ms_speed)
  have whole_lx: "\<exists>v. latestSpeedX ?d = Fin v \<and> \<bar>v\<bar> \<le> \<bar>x\<bar>"
    if "k \<noteq> 0" "?ms = Fin (of_int k)" "latestDistanceX ?d = Fin x" for k x
    unfolding eqs(4) that(2,3) using that(1) by (rule whole_ms_speed)
  have whole_ly: "\<exists>v. latestSpeedY ?d = Fin v \<and> \<bar>v\<bar> \<le> \<bar>x\<bar>"
    if "k \<noteq> 0" "?ms = Fin (of_int k)" "latestDistanceY ?d = Fin x" for k x
    unfolding eqs(5) that(2,3) using that(1) by (rule whole_ms_speed)
  have whole_lt: "\<exists>v. latestSpeed ?d = Fin v \<and> \<bar>v\<bar> \<le> \<bar>x\<bar>"
    if "k \<noteq> 0" "?ms = Fin (of_int k)" "latestDistance ?d = Fin x" for k x
    unfolding eqs(6) that(2,3) using that(1) by (rule whole_ms_speed)
  show ?thesis
    unfolding Let_def
    apply (intro conjI allI impI)
    using ties eqs nan zero_o zero_l apply simp_all[26]
    using whole_o whole_oy whole_ot whole_lx whole_ly whole_lt apply blast+
    done
qed

theorem C1_speed_fields_witness:
  "duration (fireSwipeEvent (Some 100) (Some 100) (Some 0) (touch Touchstart 100 100) started_at_100) = Fin 0 \<and>
   millisSinceLastEvent (Some 0) started_at_100 = Fin 0 \<and>
   totalDistanceX (fireSwipeEvent (Some 100) (Some 100) (Some 0) (touch Touchstart 100 100) started_at_100) = Fin 0 \<and>
   overallSpeedX (fireSwipeEvent (Some 100) (Some 100) (Some 0) (touch Touchstart 100 100) started_at_100) = Fin 0 \<and>
   latestDistance (fireSwipeEvent (Some 100) (Some 100) (Some 0) (touch Touchstart 100 100) started_at_100) = Fin 0 \<and>
   latestSpeed (fireSwipeEvent (Some 100) (Some 100) (Some 0) (touch Touchstart 100 100) started_at_100) = Fin 0 \<and>
   (100 :: int) \<noteq> 0 \<and>
   duration (fireSwipeEvent (Some 150) (Some 100) (Some 100) (touch Touchmove 150 100) started_at_100) = Fin (of_int 100) \<and>
   millisSinceLastEvent (Some 100) started_at_100 = Fin (of_int 100) \<and>
   totalDistanceX (fireSwipeEvent (Some 150) (Some 100) (Some 100) (touch Touchmove 150 100) started_at_100) = Fin 50 \<and>
   overallSpeedX (fireSwipeEvent (Some 150) (Some 100) (Some 100) (touch Touchmove 150 100) started_at_100) = Fin 0.5 \<and>
   overallSpeedY (fireSwipeEvent (Some 150) (Some 100) (Some 100) (touch Touchmove 150 100) started_at_100) = Fin 0 \<and>
   overallSpeed (fireSwipeEvent (Some 150) (Some 100) (Some 100) (touch Touchmove 150 100) started_at_100) = Fin 0.5 \<and>
   latestSpeed (fireSwipeEvent (Some 150) (Some 100) (Some 100) (touch Touchmove 150 100) started_at_100) = Fin 0.5"
  using C1_speed_fields [of "Some 100" "Some 100" "Some 0" "touch Touchstart 100 100" started_at_100]
    C1_speed_fields [of "Some 150" "Some 100" "Some 100" "touch Touchmove 150 100" started_at_100]
  by (simp add: eval_defs)

text \<open>
  Claim C1 as stated fails: a \<open>touchmove\<close> in the same millisecond as the \<open>touchstart\<close>,
  five pixels to the right, has \<open>duration\<close> 0 and the overall speeds \<open>5 / 0\<close>, which is
  \<open>Infinity\<close>; \<open>Infinity || 0\<close> is \<open>Infinity\<close>.
\<close>

theorem C1_counterexample:
  "duration (fst (dispatch (touch Touchmove 5 0) 0 started_at_origin)) = Fin 0 \<and>
   overallSpeedX (fst (dispatch (touch Touchmove 5 0) 0 started_at_origin)) \<noteq> Fin 0 \<and>
   overallSpeedX (fst (dispatch (touch Touchmove 5 0) 0 started_at_origin)) = PInf \<and>
   overallSpeed (fst (dispatch (touch Touchmove 5 0) 0 started_at_origin)) = PInf"
  by (simp add: eval_defs)

section \<open>The variables across transitions\<close>

lemma not_start_keeps_origin:
  assumes "etype e \<noteq> Touchstart"
  shows "originX (snd (dispatch e now s)) = originX s \<and> originY (snd (dispatch e now s)) = originY s
    \<and> firstEvent (snd (dispatch e now s)) = firstEvent s"
  using assms by (cases "etype e") (simp_all add: dispatch_def snd_touchmove touchend_eq touchcancel_eq)

lemma run_keeps_origin:
  "\<forall>(e, now) \<in> set es. etype e \<noteq> Touchstart \<Longrightarrow>
     originX (run es s) = originX s \<and> originY (run es s) = originY s \<and> firstEvent (run es s) = firstEvent s"
proof (induction es arbitrary: s)
  case Nil
  show ?case by simp
next
  case (Cons p es)
  obtain e now where p: "p = (e, now)" by (cases p)
  from Cons.prems p have ns: "etype e \<noteq> Touchstart" and rest: "\<forall>(e, now) \<in> set es. etype e \<noteq> Touchstart"
    by auto
  from Cons.IH[OF rest, of "snd (dispatch e now s)"] not_start_keeps_origin[OF ns, of now s] p
  show ?case by simp
qed

lemma start_sets_all:
  assumes "etype e = Touchstart"
  shows "snd (dispatch e now s) =
     s\<lparr>originX := Some (clientX e), originY := Some (clientY e), firstEvent := Some (of_int now),
       lastX := Some (clientX e), lastY := Some (clientY e), lastEvent := Some (of_int now)\<rparr>"
  using assms by (simp add: dispatch_start snd_touchstart)


text \<open>
  Claim C2, as the code has it. A \<open>touchmove\<close>, \<open>touchend\<close> or \<open>touchcancel\<close> leaves
  \<open>originX\<close>, \<open>originY\<close> and \<open>firstEvent\<close> unchanged. A \<open>touchmove\<close> publishes the record
  computed from the variables as it found them and then sets \<open>lastX\<close>, \<open>lastY\<close> to its
  point and \<open>lastEvent\<close> to its timestamp. A \<open>touchend\<close> or \<open>touchcancel\<close> publishes the
  record for the point \<open>(lastX, lastY)\<close> and changes no variable.
\<close>

theorem C2_last_update:
  "(etype e \<noteq> Touchstart \<longrightarrow>
      originX (snd (dispatch e now s)) = originX s \<and>
      originY (snd (dispatch e now s)) = originY s \<and>
      firstEvent (snd (dispatch e now s)) = firstEvent s) \<and>
   (etype e = Touchmove \<longrightarrow>
      fst (dispatch e now s) =
        fireSwipeEvent (Some (clientX e)) (Some (clientY e)) (Some (of_int now)) e s \<and>
      lastX (snd (dispatch e now s)) = Some (clientX e) \<and>
      lastY (snd (dispatch e now s)) = Some (clientY e) \<and>
      lastEvent (snd (dispatch e now s)) = Some (of_int now)) \<and>
   (etype e = Touchend \<or> etype e = Touchcancel \<longrightarrow>
      fst (dispatch e now s) = fireSwipeEvent (lastX s) (lastY s) (Some (of_int now)) e s \<and>
      snd (dispatch e now s) = s)"
proof (intro conjI impI)
  assume "etype e \<noteq> Touchstart"
  from not_start_keeps_origin[OF this, of now s]
  show "originX (snd (dispatch e now s)) = originX s"
    "originY (snd (dispatch e now s)) = originY s"
    "firstEvent (snd (dispatch e now s)) = firstEvent s" by simp_all
next
  assume mv: "etype e = Touchmove"
  show "fst (dispatch e now s) =
        fireSwipeEvent (Some (clientX e)) (Some (clientY e)) (Some (of_int now)) e s"
    by (simp add: dispatch_move[OF mv] fst_touchmove)
  show "lastX (snd (dispatch e now s)) = Some (clientX e)"
    "lastY (snd (dispatch e now s)) = Some (clientY e)"
    "lastEvent (snd (dispatch e now s)) = Some (of_int now)"
    by (simp_all add: dispatch_move[OF mv] snd_touchmove)
next
  assume "etype e = Touchend \<or> etype e = Touchcancel"
  then show "fst (dispatch e now s) = fireSwipeEvent (lastX s) (lastY s) (Some (of_int now)) e s"
    "snd (dispatch e now s) = s"
    by (auto simp add: dispatch_end dispatch_cancel touchend_eq touchcancel_eq)
qed

theorem C2_last_update_witness:
  "originX (snd (dispatch (touch Touchmove 3 4) 10 started_at_origin)) = originX started_at_origin \<and>
   lastX (snd (dispatch (touch Touchmove 3 4) 10 started_at_origin)) = Some 3 \<and>
   lastY (snd (dispatch (touch Touchmove 3 4) 10 started_at_origin)) = Some 4 \<and>
   lastEvent (snd (dispatch (touch Touchmove 3 4) 10 started_at_origin)) = Some 10 \<and>
   snd (dispatch (touch Touchend 3 4) 10 started_at_origin) = started_at_origin \<and>
   snd (dispatch (touch Touchcancel 3 4) 10 started_at_origin) = started_at_origin"
  using C2_last_update [of "touch Touchmove 3 4" 10 started_at_origin]
    C2_last_update [of "touch Touchend 3 4" 10 started_at_origin]
    C2_last_update [of "touch Touchcancel 3 4" 10 started_at_origin]
  by (simp add: touch_def)

text \<open>
  Claim C2 as stated fails for the terminal transitions: after a \<open>touchstart\<close> at time 0,
  a \<open>touchend\<close> at time 10 leaves \<open>lastEvent\<close> at 0.
\<close>

theorem C2_counterexample:
  "lastEvent (snd (dispatch (touch Touchend 3 4) 10 started_at_origin)) = Some 0 \<and>
   lastEvent (snd (dispatch (touch Touchend 3 4) 10 started_at_origin)) \<noteq> Some (of_int 10) \<and>
   lastX (snd (dispatch (touch Touchend 3 4) 10 started_at_origin)) \<noteq> Some 3"
  by (simp add: eval_defs)

text \<open>
  Claim C3. A \<open>touchstart\<close> overwrites \<open>originX\<close>, \<open>originY\<close>, \<open>lastX\<close>, \<open>lastY\<close>,
  \<open>firstEvent\<close> and \<open>lastEvent\<close> with its point and timestamp, whatever they held. Over
  any sequence of transitions without a \<open>touchstart\<close>, \<open>originX\<close>, \<open>originY\<close> and
  \<open>firstEvent\<close> keep their values; so after a \<open>touchstart\<close> and until the next one they
  are that start's point and timestamp.
\<close>

theorem C3_origin_fixed:
  "(etype e = Touchstart \<longrightarrow>
      originX (snd (dispatch e now s)) = Some (clientX e) \<and>
      originY (snd (dispatch e now s)) = Some (clientY e) \<and>
      lastX (snd (dispatch e now s)) = Some (clientX e) \<and>
      lastY (snd (dispatch e now s)) = Some (clientY e) \<and>
      firstEvent (snd (dispatch e now s)) = Some (of_int now) \<and>
      lastEvent (snd (dispatch e now s)) = Some (of_int now)) \<and>
   ((\<forall>(e', now') \<in> set es. etype e' \<noteq> Touchstart) \<longrightarrow>
      originX (run es s) = originX s \<and>
      originY (run es s) = originY s \<and>
      firstEvent (run es s) = firstEvent s) \<and>
   (etype e = Touchstart \<and> (\<forall>(e', now') \<in> set es. etype e' \<noteq> Touchstart) \<longrightarrow>
      originX (run ((e, now) # es) s) = Some (clientX e) \<and>
      originY (run ((e, now) # es) s) = Some (clientY e) \<and>
      firstEvent (run ((e, now) # es) s) = Some (of_int now))"
proof (intro conjI impI)
  assume st: "etype e = Touchstart"
  show "originX (snd (dispatch e now s)) = Some (clientX e)"
    "originY (snd (dispatch e now s)) = Some (clientY e)"
    "lastX (snd (dispatch e now s)) = Some (clientX e)"
    "lastY (snd (dispatch e now s)) = Some (clientY e)"
    "firstEvent (snd (dispatch e now s)) = Some (of_int now)"
    "lastEvent (snd (dispatch e now s)) = Some (of_int now)"
    by (simp_all add: start_sets_all[OF st])
next
  assume ns: "\<forall>(e', now') \<in> set es. etype e' \<noteq> Touchstart"
  from run_keeps_origin[OF ns, of s]
  show "originX (run es s) = originX s" "originY (run es s) = originY s"
    "firstEvent (run es s) = firstEvent s" by simp_all
next
  assume both: "etype e = Touchstart \<and> (\<forall>(e', now') \<in> set es. etype e' \<noteq> Touchstart)"
  then have st: "etype e = Touchstart" and ns: "\<forall>(e', now') \<in> set es. etype e' \<noteq> Touchstart"
    by simp_all
  from run_keeps_origin[OF ns, of "snd (dispatch e now s)"]
  show "originX (run ((e, now) # es) s) = Some (clientX e)"
    "originY (run ((e, now) # es) s) = Some (clientY e)"
    "firstEvent (run ((e, now) # es) s) = Some (of_int now)"
    by (simp_all add: start_sets_all[OF st])
qed

theorem C3_origin_fixed_witness:
  "originX (snd (dispatch (touch Touchstart 7 8) 5 started_at_100)) = Some 7 \<and>
   lastEvent (snd (dispatch (touch Touchstart 7 8) 5 started_at_100)) = Some 5 \<and>
   originX (run [(touch Touchmove 1 2, 6), (touch Touchend 3 4, 7), (touch Touchmove 5 6, 9)] started_at_100)
     = originX started_at_100 \<and>
   originX (run [(touch Touchstart 7 8, 5), (touch Touchmove 1 2, 6), (touch Touchend 3 4, 7),
                 (touch Touchmove 5 6, 9)] started_at_100) = Some 7 \<and>
   firstEvent (run [(touch Touchstart 7 8, 5), (touch Touchmove 1 2, 6), (touch Touchend 3 4, 7),
                 (touch Touchmove 5 6, 9)] started_at_100) = Some 5"
  using C3_origin_fixed [where e = "touch Touchstart 7 8" and now = 5 and s = started_at_100
      and es = "[(touch Touchmove 1 2, 6), (touch Touchend 3 4, 7), (touch Touchmove 5 6, 9)]"]
  by (simp add: touch_def)

section \<open>The record of a start\<close>

lemma start_record:
  "fireSwipeEvent (Some x) (Some y) (Some t) e
     (s\<lparr>originX := Some x, originY := Some y, firstEvent := Some t,
        lastX := Some x, lastY := Some y, lastEvent := Some t\<rparr>) =
   \<lparr>event = e, eventTime = Some t, duration = Fin 0, initial = (etype e = Touchstart),
    ongoing = (etype e = Touchstart \<or> etype e = Touchmove),
    cardinal4 = ''S'', cardinal8 = ''S'', theta = Fin 0,
    detail_originX = Some x, detail_originY = Some y, currentX = Some x, currentY = Some y,
    totalDistanceX = Fin 0, totalDistanceY = Fin 0, totalDistance = Fin 0,
    latestDistanceX = Fin 0, latestDistanceY = Fin 0, latestDistance = Fin 0,
    overallSpeedX = Fin 0, overallSpeedY = Fin 0, overallSpeed = Fin 0,
    latestSpeedX = Fin 0, latestSpeedY = Fin 0, latestSpeed = Fin 0\<rparr>"
  by (simp add: fireSwipeEvent_def Let_def totalChangeInX_def totalChangeInY_def
      millisSinceLastEvent_def js_or_def js_gt_def horizontalDir_def verticalDir_def
      tangent_def radians_def Math_PI_def atan2_real_def)

text \<open>
  Claim C4. The record published for a \<open>touchstart\<close> has \<open>totalDistanceX\<close>,
  \<open>totalDistanceY\<close>, \<open>latestDistanceX\<close> and \<open>latestDistanceY\<close> equal to 0, all six
  speed fields equal to 0 (so none is NaN or an infinity), \<open>duration\<close> 0, and \<open>initial\<close>
  and \<open>ongoing\<close> true, whatever the variables held before.
\<close>

theorem C4_start_record:
  "etype e = Touchstart \<Longrightarrow>
   (let d = fst (dispatch e now s) in
      totalDistanceX d = Fin 0 \<and> totalDistanceY d = Fin 0 \<and>
      latestDistanceX d = Fin 0 \<and> latestDistanceY d = Fin 0 \<and>
      overallSpeedX d = Fin 0 \<and> overallSpeedY d = Fin 0 \<and> overallSpeed d = Fin 0 \<and>
      latestSpeedX d = Fin 0 \<and> latestSpeedY d = Fin 0 \<and> latestSpeed d = Fin 0 \<and>
      duration d = Fin 0 \<and> initial d = True \<and> ongoing d = True)"
  by (simp add: dispatch_start fst_touchstart snd_touchstart start_record)

theorem C4_start_record_witness:
  "totalDistanceX (fst (dispatch (touch Touchstart 100 100) 0 initial_session)) = Fin 0 \<and>
   latestDistanceY (fst (dispatch (touch Touchstart 100 100) 0 initial_session)) = Fin 0 \<and>
   overallSpeed (fst (dispatch (touch Touchstart 100 100) 0 initial_session)) = Fin 0 \<and>
   latestSpeed (fst (dispatch (touch Touchstart 100 100) 0 initial_session)) = Fin 0 \<and>
   duration (fst (dispatch (touch Touchstart 100 100) 0 initial_session)) = Fin 0 \<and>
   initial (fst (dispatch (touch Touchstart 100 100) 0 initial_session)) \<and>
   ongoing (fst (dispatch (touch Touchstart 100 100) 0 initial_session))"
  using C4_start_record [of "touch Touchstart 100 100" 0 initial_session]
  by (simp add: touch_def Let_def)

section \<open>Directions\<close>

lemma js_gt_irrefl: "\<not> js_gt a a"
  by (cases a) (simp_all add: js_gt_def)


text \<open>
  Claim C5, as the code has it. The origin and the point are those \<open>fireSwipeEvent\<close>
  works with: the origin is the variables \<open>originX\<close>, \<open>originY\<close> (on a \<open>touchstart\<close>,
  the event's coordinates), and the point is the published \<open>currentX\<close>, \<open>currentY\<close>,
  which is the event's coordinates on a \<open>touchstart\<close> or \<open>touchmove\<close> and \<open>lastX\<close>,
  \<open>lastY\<close> on a \<open>touchend\<close> or \<open>touchcancel\<close>. With the horizontal direction \<open>W\<close> if
  \<open>origin.x > point.x\<close> and \<open>E\<close> otherwise, and the vertical direction \<open>N\<close> if
  \<open>origin.y > point.y\<close> and \<open>S\<close> otherwise, \<open>cardinal4\<close> is the horizontal direction
  when \<open>totalDistanceX > totalDistanceY\<close> and the vertical direction otherwise; on a tie
  it is the vertical direction; and it is always one of N, S, E, W.
\<close>

theorem C5_cardinal4_of_inputs:
  "let d = fst (dispatch e now s);
       pX = fst (published_point e s);
       pY = snd (published_point e s);
       oX = originX (firing_session e now s);
       oY = originY (firing_session e now s);
       dX = Math_abs (js_sub (toNumber pX) (toNumber oX));
       dY = Math_abs (js_sub (toNumber pY) (toNumber oY));
       h = (if js_gt (toNumber oX) (toNumber pX) then ''W'' else ''E'');
       v = (if js_gt (toNumber oY) (toNumber pY) then ''N'' else ''S'')
   in detail_originX d = oX \<and> detail_originY d = oY \<and> currentX d = pX \<and> currentY d = pY \<and>
      totalDistanceX d = dX \<and> totalDistanceY d = dY \<and>
      cardinal4 d = (if js_gt dX dY then h else v) \<and>
      (dX = dY \<longrightarrow> cardinal4 d = v) \<and>
      cardinal4 d \<in> {''N'', ''S'', ''E'', ''W''}"
  unfolding Let_def dispatch_fire_eq
  by (simp add: fire_directions fire_fields horizontalDir_def verticalDir_def js_gt_irrefl
      totalChangeInX_def totalChangeInY_def)

theorem C5_cardinal4_of_inputs_witness:
  "cardinal4 (fst (dispatch (touch Touchmove 50 100) 10 started_at_100)) = ''W'' \<and>
   cardinal4 (fst (dispatch (touch Touchmove 150 100) 10 started_at_100)) = ''E'' \<and>
   cardinal4 (fst (dispatch (touch Touchmove 100 30) 10 started_at_100)) = ''N'' \<and>
   cardinal4 (fst (dispatch (touch Touchmove 100 170) 10 started_at_100)) = ''S'' \<and>
   totalDistanceX (fst (dispatch (touch Touchmove 103 97) 10 started_at_100)) = Fin 3 \<and>
   totalDistanceY (fst (dispatch (touch Touchmove 103 97) 10 started_at_100)) = Fin 3 \<and>
   cardinal4 (fst (dispatch (touch Touchmove 103 97) 10 started_at_100)) = ''N'' \<and>
   cardinal4 (fst (dispatch (touch Touchmove 97 103) 10 started_at_100)) = ''S'' \<and>
   currentX (fst (dispatch (touch Touchend (- 9) 0) 20 moved_to_5_0)) = Some 5 \<and>
   cardinal4 (fst (dispatch (touch Touchend (- 9) 0) 20 moved_to_5_0)) = ''E''"
proof -
  have o: "originX started_at_100 = Some 100" "originY started_at_100 = Some 100"
    "originX moved_to_5_0 = Some 0" "originY moved_to_5_0 = Some 0"
    "lastX moved_to_5_0 = Some 5" "lastY moved_to_5_0 = Some 0"
    by (simp_all add: eval_defs moved_to_5_0_def)
  show ?thesis
    using C5_cardinal4_of_inputs [of "touch Touchmove 50 100" 10 started_at_100]
      C5_cardinal4_of_inputs [of "touch Touchmove 150 100" 10 started_at_100]
      C5_cardinal4_of_inputs [of "touch Touchmove 100 30" 10 started_at_100]
      C5_cardinal4_of_inputs [of "touch Touchmove 100 170" 10 started_at_100]
      C5_cardinal4_of_inputs [of "touch Touchmove 103 97" 10 started_at_100]
      C5_cardinal4_of_inputs [of "touch Touchmove 97 103" 10 started_at_100]
      C5_cardinal4_of_inputs [of "touch Touchend (- 9) 0" 20 moved_to_5_0]
    by (simp add: Let_def published_point_def firing_session_def touch_def js_gt_def o)
qed

text \<open>
  Claim C5 as stated fails on a terminal transition that carries a point of its own.
  After a \<open>touchstart\<close> at \<open>(0, 0)\<close> and a \<open>touchmove\<close> to \<open>(5, 0)\<close>, a \<open>touchend\<close> at
  \<open>(-9, 0)\<close> has \<open>origin.x > point.x\<close> and a horizontal displacement, yet the record
  has \<open>cardinal4\<close> = \<open>E\<close>: the listener passes \<open>(lastX, lastY)\<close> = \<open>(5, 0)\<close>.
\<close>

theorem C5_counterexample:
  "originX moved_to_5_0 = Some 0 \<and>
   js_gt (toNumber (originX moved_to_5_0)) (Fin (clientX (touch Touchend (- 9) 0))) \<and>
   js_gt (totalDistanceX (fst (dispatch (touch Touchend (- 9) 0) 20 moved_to_5_0)))
         (totalDistanceY (fst (dispatch (touch Touchend (- 9) 0) 20 moved_to_5_0))) \<and>
   cardinal4 (fst (dispatch (touch Touchend (- 9) 0) 20 moved_to_5_0)) = ''E'' \<and>
   cardinal4 (fst (dispatch (touch Touchend (- 9) 0) 20 moved_to_5_0)) \<noteq> ''W''"
  by (simp add: eval_defs)






section \<open>The angle theta\<close>

lemma atan2_real_bounds: "- pi < atan2_real y x \<and> atan2_real y x \<le> pi"
proof -
  let ?a = "arctan (y / x)"
  have b: "- (pi / 2) < ?a" "?a < pi / 2"
    by (rule arctan_lbound, rule arctan_ubound)
  have p: "0 < pi" by simp
  consider "0 < x" | "x < 0" "0 \<le> y" | "x < 0" "y < 0" | "x = 0"
    by linarith
  then show ?thesis
  proof cases
    case 1
    then have "atan2_real y x = ?a" by (simp add: atan2_real_def)
    with b p show ?thesis by linarith
  next
    case 2
    then have "y / x \<le> 0" by (simp add: divide_nonneg_neg)
    then have "?a \<le> 0" by (simp add: arctan_le_zero_iff)
    moreover from 2 have "atan2_real y x = ?a + pi" by (simp add: atan2_real_def)
    ultimately show ?thesis using b p by linarith
  next
    case 3
    then have "0 < y / x" by (simp add: divide_neg_neg)
    then have "0 < ?a" by (simp add: zero_less_arctan_iff)
    moreover from 3 have "atan2_real y x = ?a - pi" by (simp add: atan2_real_def)
    ultimately show ?thesis using b p by linarith
  next
    case 4
    then have "atan2_real y x = pi / 2 \<or> atan2_real y x = - (pi / 2) \<or> atan2_real y x = 0"
      by (simp add: atan2_real_def)
    with p show ?thesis by linarith
  qed
qed

lemma theta_finite:
  "js_mul (if js_lt (radians (Fin y) (Fin x)) (Fin 0)
           then js_add (radians (Fin y) (Fin x)) (js_mul (Fin 2) Math_PI)
           else radians (Fin y) (Fin x))
     (js_div (Fin 180) Math_PI) =
   Fin (if atan2_real y x < 0 then atan2_real y x * (180 / pi) + 360 else atan2_real y x * (180 / pi))"
  by (simp add: radians_def Math_PI_def field_simps)

lemma degrees_range:
  "0 \<le> (if atan2_real y x < 0 then atan2_real y x * (180 / pi) + 360 else atan2_real y x * (180 / pi))
   \<and> (if atan2_real y x < 0 then atan2_real y x * (180 / pi) + 360 else atan2_real y x * (180 / pi)) < 360"
proof -
  define c :: real where "c = 180 / pi"
  have c: "0 < c" and pc: "pi * c = 180"
    by (simp_all add: c_def)
  have b: "- pi < atan2_real y x" "atan2_real y x \<le> pi"
    using atan2_real_bounds by simp_all
  have lo: "- 180 < atan2_real y x * c"
    using mult_strict_right_mono[OF b(1) c] pc by simp
  have hi: "atan2_real y x * c \<le> 180"
    using mult_right_mono[OF b(2), of c] c pc by simp
  show ?thesis
  proof (cases "atan2_real y x < 0")
    case True
    then have "atan2_real y x * c < 0"
      using c by (simp add: mult_neg_pos)
    with lo True show ?thesis unfolding c_def by simp
  next
    case False
    then have "0 \<le> atan2_real y x * c"
      using c by simp
    with hi False show ?thesis unfolding c_def by simp
  qed
qed

lemma atan2_up: "y < 0 \<Longrightarrow> atan2_real y 0 = - (pi / 2)"
  by (simp add: atan2_real_def)

lemma degrees_closed_range:
  "js_le (Fin 0) (Fin (if atan2_real y x < 0 then atan2_real y x * (180 / pi) + 360
                       else atan2_real y x * (180 / pi))) \<and>
   js_le (Fin (if atan2_real y x < 0 then atan2_real y x * (180 / pi) + 360
               else atan2_real y x * (180 / pi))) (Fin 360)"
  using degrees_range[of y x] by simp

text \<open>
  Claim C7, as the code has it. With \<open>dX\<close>, \<open>dY\<close> the signed displacements of the
  published point from the origin, \<open>theta\<close> is \<open>atan2(dY, dX)\<close>, plus \<open>2\<pi>\<close> when
  negative, times \<open>180 / \<pi>\<close>. Whenever both displacements are finite numbers, which
  they are for every transition from the first \<open>touchstart\<close> on, \<open>theta\<close> lies in the
  closed interval from 0 to 360; a pure upward displacement gives 270.
\<close>

theorem C7_theta_range:
  "let d = fst (dispatch e now s);
       pX = fst (published_point e s);
       pY = snd (published_point e s);
       oX = originX (firing_session e now s);
       oY = originY (firing_session e now s);
       dX = js_sub (toNumber pX) (toNumber oX);
       dY = js_sub (toNumber pY) (toNumber oY);
       rad = Math_atan2 dY dX
   in theta d = js_mul (if js_lt rad (Fin 0) then js_add rad (js_mul (Fin 2) Math_PI) else rad)
                  (js_div (Fin 180) Math_PI) \<and>
      (\<forall>x y. dX = Fin x \<and> dY = Fin y \<longrightarrow> js_le (Fin 0) (theta d) \<and> js_le (theta d) (Fin 360)) \<and>
      (etype e = Touchstart \<or> gesture_begun s \<longrightarrow>
         js_le (Fin 0) (theta d) \<and> js_le (theta d) (Fin 360)) \<and>
      (\<forall>y. dX = Fin 0 \<and> dY = Fin y \<and> y < 0 \<longrightarrow> theta d = Fin 270)"
proof -
  let ?d = "fst (dispatch e now s)"
  let ?dX = "js_sub (toNumber (fst (published_point e s))) (toNumber (originX (firing_session e now s)))"
  let ?dY = "js_sub (toNumber (snd (published_point e s))) (toNumber (originY (firing_session e now s)))"
  have th: "theta ?d =
      js_mul (if js_lt (Math_atan2 ?dY ?dX) (Fin 0)
              then js_add (Math_atan2 ?dY ?dX) (js_mul (Fin 2) Math_PI)
              else Math_atan2 ?dY ?dX)
        (js_div (Fin 180) Math_PI)"
    unfolding dispatch_fire_eq
    by (simp add: fire_directions(3) radians_def totalChangeInX_def totalChangeInY_def)
  have deg: "theta ?d = Fin (if atan2_real y x < 0 then atan2_real y x * (180 / pi) + 360
                        else atan2_real y x * (180 / pi))"
    if "?dX = Fin x" "?dY = Fin y" for x y
  proof -
    have "theta ?d =
        js_mul (if js_lt (radians (Fin y) (Fin x)) (Fin 0)
                then js_add (radians (Fin y) (Fin x)) (js_mul (Fin 2) Math_PI)
                else radians (Fin y) (Fin x))
          (js_div (Fin 180) Math_PI)"
      unfolding th that radians_def by (rule refl)
    then show ?thesis
      by (simp only: theta_finite)
  qed
  have fin: "js_le (Fin 0) (theta ?d) \<and> js_le (theta ?d) (Fin 360)"
    if "?dX = Fin x" "?dY = Fin y" for x y
    unfolding deg[OF that] by (rule degrees_closed_range)
  have up: "theta ?d = Fin 270" if "?dX = Fin 0" "?dY = Fin y" "y < 0" for y
    using deg[OF that(1,2)] atan2_up[OF that(3)] that(3) by simp
  have begun: "js_le (Fin 0) (theta ?d) \<and> js_le (theta ?d) (Fin 360)"
    if "etype e = Touchstart \<or> gesture_begun s"
  proof -
    from begun_displacements[OF that, of now] obtain px py ox oy where
      p: "published_point e s = (Some px, Some py)"
      and o: "originX (firing_session e now s) = Some ox" "originY (firing_session e now s) = Some oy"
      by blast
    have "?dX = Fin (px - ox)" "?dY = Fin (py - oy)"
      by (simp_all add: p o)
    then show ?thesis
      by (rule fin)
  qed
  show ?thesis
    unfolding Let_def
  proof (intro conjI allI impI)
    show "theta ?d =
      js_mul (if js_lt (Math_atan2 ?dY ?dX) (Fin 0)
              then js_add (Math_atan2 ?dY ?dX) (js_mul (Fin 2) Math_PI)
              else Math_atan2 ?dY ?dX)
        (js_div (Fin 180) Math_PI)"
      by (rule th)
  next
    fix x y assume "?dX = Fin x \<and> ?dY = Fin y"
    then have a: "?dX = Fin x" "?dY = Fin y" by simp_all
    from fin[OF a] show "js_le (Fin 0) (theta ?d)" "js_le (theta ?d) (Fin 360)" by simp_all
  next
    assume a: "etype e = Touchstart \<or> gesture_begun s"
    from begun[OF a] show "js_le (Fin 0) (theta ?d)" "js_le (theta ?d) (Fin 360)" by simp_all
  next
    fix y assume "?dX = Fin 0 \<and> ?dY = Fin y \<and> y < 0"
    then have a: "?dX = Fin 0" "?dY = Fin y" "y < 0" by simp_all
    from up[OF a] show "theta ?d = Fin 270" .
  qed
qed

theorem C7_theta_range_witness:
  "gesture_begun started_at_origin \<and>
   theta (fst (dispatch (touch Touchmove 0 (- 50)) 50 started_at_origin)) = Fin 270 \<and>
   js_le (Fin 0) (theta (fst (dispatch (touch Touchmove 0 (- 50)) 50 started_at_origin))) \<and>
   js_le (theta (fst (dispatch (touch Touchmove 0 (- 50)) 50 started_at_origin))) (Fin 360) \<and>
   theta (fst (dispatch (touch Touchmove 0 50) 50 started_at_origin)) = Fin 90 \<and>
   theta (fst (dispatch (touch Touchmove (- 5) 0) 50 started_at_origin)) = Fin 180 \<and>
   theta (fst (dispatch (touch Touchmove 1 1) 50 started_at_origin)) = Fin 45 \<and>
   theta (fst (dispatch (touch Touchmove 1 (- 1)) 50 started_at_origin)) = Fin 315 \<and>
   theta (fst (dispatch (touch Touchstart 7 8) 50 initial_session)) = Fin 0"
proof -
  have b: "gesture_begun started_at_origin"
    by (simp add: eval_defs gesture_begun_def)
  have o: "originX started_at_origin = Some 0" "originY started_at_origin = Some 0"
    by (simp_all add: eval_defs)
  have n: "(- 50 :: real) < 0"
    by simp
  have a: "arctan (- 1) = - (pi / 4)"
    using arctan_minus[of 1] by (simp add: arctan_one)
  note U = C7_theta_range [of "touch Touchmove 0 (- 50)" 50 started_at_origin, unfolded Let_def]
  have du: "js_sub (toNumber (fst (published_point (touch Touchmove 0 (- 50)) started_at_origin)))
              (toNumber (originX (firing_session (touch Touchmove 0 (- 50)) 50 started_at_origin))) = Fin 0"
    "js_sub (toNumber (snd (published_point (touch Touchmove 0 (- 50)) started_at_origin)))
              (toNumber (originY (firing_session (touch Touchmove 0 (- 50)) 50 started_at_origin))) = Fin (- 50)"
    by (simp_all add: published_point_def firing_session_def touch_def o)
  have up: "theta (fst (dispatch (touch Touchmove 0 (- 50)) 50 started_at_origin)) = Fin 270"
    using U du n by blast
  have rg: "js_le (Fin 0) (theta (fst (dispatch (touch Touchmove 0 (- 50)) 50 started_at_origin)))"
    "js_le (theta (fst (dispatch (touch Touchmove 0 (- 50)) 50 started_at_origin))) (Fin 360)"
    using U b by blast+
  have others: "theta (fst (dispatch (touch Touchmove 0 50) 50 started_at_origin)) = Fin 90"
    "theta (fst (dispatch (touch Touchmove (- 5) 0) 50 started_at_origin)) = Fin 180"
    "theta (fst (dispatch (touch Touchmove 1 1) 50 started_at_origin)) = Fin 45"
    "theta (fst (dispatch (touch Touchmove 1 (- 1)) 50 started_at_origin)) = Fin 315"
    "theta (fst (dispatch (touch Touchstart 7 8) 50 initial_session)) = Fin 0"
    using C7_theta_range [of "touch Touchmove 0 50" 50 started_at_origin]
      C7_theta_range [of "touch Touchmove (- 5) 0" 50 started_at_origin]
      C7_theta_range [of "touch Touchmove 1 1" 50 started_at_origin]
      C7_theta_range [of "touch Touchmove 1 (- 1)" 50 started_at_origin]
      C7_theta_range [of "touch Touchstart 7 8" 50 initial_session]
    by (simp_all add: Let_def published_point_def firing_session_def touch_def o
        Math_PI_def atan2_real_def arctan_one a field_simps)
  show ?thesis
    using b up rg others by blast
qed

text \<open>
  Claim C7 as stated fails before the first \<open>touchstart\<close>: a \<open>touchmove\<close> handled while
  \<open>originX\<close> and \<open>originY\<close> are still \<open>undefined\<close> publishes \<open>theta\<close> = NaN, which is
  not in \<open>[0, 360)\<close>. (With doubles the upper bound is not strict either: after a
  \<open>touchstart\<close> at \<open>(0, 100.30000000000001)\<close>, a \<open>touchmove\<close> to \<open>(200, 100.3)\<close> has a
  tiny negative angle, and \<open>theta\<close> is exactly 360.)
\<close>

theorem C7_counterexample:
  "theta (fst (dispatch (touch Touchmove 5 0) 7 initial_session)) = NaN \<and>
   \<not> js_le (Fin 0) (theta (fst (dispatch (touch Touchmove 5 0) 7 initial_session))) \<and>
   \<not> js_lt (theta (fst (dispatch (touch Touchmove 5 0) 7 initial_session))) (Fin 360)"
  by (simp add: eval_defs)

section \<open>Distances\<close>

lemma abs_not_negative: "\<not> js_lt (Math_abs a) (Fin 0)"
  by (cases a) simp_all

lemma hypot_not_negative: "\<not> js_lt (Math_hypot a b) (Fin 0)"
  by (cases a; cases b) (simp_all add: not_sum_squares_lt_zero)

text \<open>
  Claim C8, as the code has it. For every transition \<open>totalDistance\<close> is
  \<open>hypot(totalDistanceX, totalDistanceY)\<close>, \<open>latestDistance\<close> is
  \<open>hypot(latestDistanceX, latestDistanceY)\<close>, and none of the six distance fields is
  negative. For every transition from the first \<open>touchstart\<close> on, all six are numbers
  greater than or equal to 0.
\<close>

theorem C8_distances:
  "let d = fst (dispatch e now s) in
     totalDistance d = Math_hypot (totalDistanceX d) (totalDistanceY d) \<and>
     latestDistance d = Math_hypot (latestDistanceX d) (latestDistanceY d) \<and>
     \<not> js_lt (totalDistanceX d) (Fin 0) \<and> \<not> js_lt (totalDistanceY d) (Fin 0) \<and>
     \<not> js_lt (totalDistance d) (Fin 0) \<and> \<not> js_lt (latestDistanceX d) (Fin 0) \<and>
     \<not> js_lt (latestDistanceY d) (Fin 0) \<and> \<not> js_lt (latestDistance d) (Fin 0) \<and>
     (etype e = Touchstart \<or> gesture_begun s \<longrightarrow>
        js_le (Fin 0) (totalDistanceX d) \<and> js_le (Fin 0) (totalDistanceY d) \<and>
        js_le (Fin 0) (totalDistance d) \<and> js_le (Fin 0) (latestDistanceX d) \<and>
        js_le (Fin 0) (latestDistanceY d) \<and> js_le (Fin 0) (latestDistance d))"
proof -
  let ?d = "fst (dispatch e now s)"
  obtain cX cY s' where d: "?d = fireSwipeEvent cX cY (Some (of_int now)) e s'"
    using dispatch_fires by blast
  have hyp: "totalDistance ?d = Math_hypot (totalDistanceX ?d) (totalDistanceY ?d)"
    "latestDistance ?d = Math_hypot (latestDistanceX ?d) (latestDistanceY ?d)"
    unfolding d by (simp_all add: fire_fields)
  have nn: "\<not> js_lt (totalDistanceX ?d) (Fin 0)" "\<not> js_lt (totalDistanceY ?d) (Fin 0)"
    "\<not> js_lt (totalDistance ?d) (Fin 0)" "\<not> js_lt (latestDistanceX ?d) (Fin 0)"
    "\<not> js_lt (latestDistanceY ?d) (Fin 0)" "\<not> js_lt (latestDistance ?d) (Fin 0)"
    unfolding d by (simp_all only: fire_fields abs_not_negative hypot_not_negative not_False_eq_True)
  have begun: "js_le (Fin 0) (totalDistanceX ?d) \<and> js_le (Fin 0) (totalDistanceY ?d) \<and>
        js_le (Fin 0) (totalDistance ?d) \<and> js_le (Fin 0) (latestDistanceX ?d) \<and>
        js_le (Fin 0) (latestDistanceY ?d) \<and> js_le (Fin 0) (latestDistance ?d)"
    if "etype e = Touchstart \<or> gesture_begun s"
  proof -
    from dispatch_fires_begun[OF that, of now] obtain x y s2 where
      d2: "?d = fireSwipeEvent (Some x) (Some y) (Some (of_int now)) e s2" and b: "gesture_begun s2"
      by blast
    from b obtain ox oy lx ly where o: "originX s2 = Some ox" "originY s2 = Some oy"
      "lastX s2 = Some lx" "lastY s2 = Some ly"
      by (auto simp add: gesture_begun_def)
    show ?thesis
      unfolding d2
      by (simp add: fire_fields totalChangeInX_def totalChangeInY_def o not_sum_squares_lt_zero)
  qed
  show ?thesis
    unfolding Let_def using hyp nn begun by blast
qed

theorem C8_distances_witness:
  "gesture_begun started_at_origin \<and>
   totalDistanceX (fst (dispatch (touch Touchmove (- 3) 4) 10 started_at_origin)) = Fin 3 \<and>
   totalDistance (fst (dispatch (touch Touchmove (- 3) 4) 10 started_at_origin)) = Fin 5 \<and>
   js_le (Fin 0) (totalDistanceX (fst (dispatch (touch Touchmove (- 3) 4) 10 started_at_origin))) \<and>
   js_le (Fin 0) (latestDistance (fst (dispatch (touch Touchmove (- 3) 4) 10 started_at_origin))) \<and>
   js_le (Fin 0) (totalDistance (fst (dispatch (touch Touchstart 100 100) 0 initial_session)))"
proof -
  have b: "gesture_begun started_at_origin"
    by (simp add: eval_defs gesture_begun_def)
  have v: "totalDistanceX (fst (dispatch (touch Touchmove (- 3) 4) 10 started_at_origin)) = Fin 3"
    "totalDistance (fst (dispatch (touch Touchmove (- 3) 4) 10 started_at_origin)) = Fin 5"
    by (simp_all add: eval_defs)
  have k: "etype (touch Touchstart 100 100) = Touchstart"
    by (simp add: touch_def)
  show ?thesis
    using C8_distances [of "touch Touchmove (- 3) 4" 10 started_at_origin]
      C8_distances [of "touch Touchstart 100 100" 0 initial_session] b v k
    unfolding Let_def by blast
qed

text \<open>
  Claim C8 as stated fails before the first \<open>touchstart\<close>: a \<open>touchmove\<close> handled while
  the variables are still \<open>undefined\<close> publishes NaN distances, and \<open>NaN >= 0\<close> is false.
\<close>

theorem C8_counterexample:
  "totalDistanceX (fst (dispatch (touch Touchmove 5 0) 7 initial_session)) = NaN \<and>
   \<not> js_le (Fin 0) (totalDistanceX (fst (dispatch (touch Touchmove 5 0) 7 initial_session))) \<and>
   \<not> js_le (Fin 0) (totalDistance (fst (dispatch (touch Touchmove 5 0) 7 initial_session))) \<and>
   \<not> js_le (Fin 0) (latestDistanceX (fst (dispatch (touch Touchmove 5 0) 7 initial_session)))"
  by (simp add: eval_defs)

section \<open>The terminal transitions\<close>

lemma fire_other_event:
  "etype e' = etype e \<Longrightarrow>
     fireSwipeEvent cX cY t e' s = (fireSwipeEvent cX cY t e s)\<lparr>event := e'\<rparr>"
  by (simp add: fireSwipeEvent_def Let_def)

lemma same_point_distance:
  "Math_abs (js_sub (toNumber v) (toNumber v)) = (case v of None \<Rightarrow> NaN | Some r \<Rightarrow> Fin 0)"
  by (cases v) simp_all

lemma zero_or_nan_speed:
  "a = NaN \<or> a = Fin 0 \<Longrightarrow> js_or (js_div a b) (Fin 0) = Fin 0"
  by (cases b) (auto simp add: js_or_def)

lemma zero_or_nan_hypot:
  "a = NaN \<or> a = Fin 0 \<Longrightarrow> b = NaN \<or> b = Fin 0 \<Longrightarrow>
     Math_hypot a b = NaN \<or> Math_hypot a b = Fin 0"
  by auto

lemma terminal_record:
  "etype e = Touchend \<or> etype e = Touchcancel \<Longrightarrow>
     fst (dispatch e now s) = fireSwipeEvent (lastX s) (lastY s) (Some (of_int now)) e s"
  by (auto simp add: dispatch_end dispatch_cancel touchend_eq touchcancel_eq)

text \<open>
  Claim C10, as the code has it. For every \<open>touchend\<close> or \<open>touchcancel\<close> the published
  \<open>currentX\<close>, \<open>currentY\<close> are the variables \<open>lastX\<close>, \<open>lastY\<close>; the coordinates the
  event carries change nothing in the record but its \<open>event\<close> field; the three latest
  speeds are 0; and the latest distances are 0 whenever \<open>lastX\<close>, \<open>lastY\<close> have been
  assigned, that is after any \<open>touchstart\<close> or \<open>touchmove\<close>.
\<close>

theorem C10_terminal_latest:
  "etype e = Touchend \<or> etype e = Touchcancel \<Longrightarrow>
   (let d = fst (dispatch e now s) in
      currentX d = lastX s \<and> currentY d = lastY s \<and>
      fst (dispatch (e\<lparr>clientX := x, clientY := y\<rparr>) now s) = d\<lparr>event := e\<lparr>clientX := x, clientY := y\<rparr>\<rparr> \<and>
      latestSpeedX d = Fin 0 \<and> latestSpeedY d = Fin 0 \<and> latestSpeed d = Fin 0 \<and>
      (lastX s \<noteq> None \<longrightarrow> latestDistanceX d = Fin 0) \<and>
      (lastY s \<noteq> None \<longrightarrow> latestDistanceY d = Fin 0) \<and>
      (lastX s \<noteq> None \<and> lastY s \<noteq> None \<longrightarrow> latestDistance d = Fin 0))"
proof -
  assume t: "etype e = Touchend \<or> etype e = Touchcancel"
  let ?D = "fst (dispatch e now s)"
  let ?e' = "e\<lparr>clientX := x, clientY := y\<rparr>"
  have d: "?D = fireSwipeEvent (lastX s) (lastY s) (Some (of_int now)) e s"
    using t by (rule terminal_record)
  have ty: "etype ?e' = etype e"
    by simp
  have t': "etype ?e' = Touchend \<or> etype ?e' = Touchcancel"
    using t by (simp only: ty)
  have ind: "fst (dispatch ?e' now s) = ?D\<lparr>event := ?e'\<rparr>"
    unfolding d terminal_record[OF t'] by (rule fire_other_event[OF ty])
  have cur: "currentX ?D = lastX s" "currentY ?D = lastY s"
    unfolding d by (simp_all only: fire_fields)
  have ldx: "latestDistanceX ?D = NaN \<or> latestDistanceX ?D = Fin 0"
    unfolding d fire_fields same_point_distance by (cases "lastX s") simp_all
  have ldy: "latestDistanceY ?D = NaN \<or> latestDistanceY ?D = Fin 0"
    unfolding d fire_fields same_point_distance by (cases "lastY s") simp_all
  have ld: "latestDistance ?D = NaN \<or> latestDistance ?D = Fin 0"
  proof -
    have "latestDistance ?D = Math_hypot (latestDistanceX ?D) (latestDistanceY ?D)"
      unfolding d by (simp only: fire_fields)
    with zero_or_nan_hypot[OF ldx ldy] show ?thesis by simp
  qed
  have sx: "latestSpeedX ?D = Fin 0"
    unfolding d fire_speeds using ldx[unfolded d] by (rule zero_or_nan_speed)
  have sy: "latestSpeedY ?D = Fin 0"
    unfolding d fire_speeds using ldy[unfolded d] by (rule zero_or_nan_speed)
  have sl: "latestSpeed ?D = Fin 0"
    unfolding d fire_speeds using ld[unfolded d] by (rule zero_or_nan_speed)
  have dx: "latestDistanceX ?D = Fin 0" if "lastX s \<noteq> None"
    using that unfolding d fire_fields same_point_distance by (cases "lastX s") simp_all
  have dy: "latestDistanceY ?D = Fin 0" if "lastY s \<noteq> None"
    using that unfolding d fire_fields same_point_distance by (cases "lastY s") simp_all
  have dl: "latestDistance ?D = Fin 0" if "lastX s \<noteq> None \<and> lastY s \<noteq> None"
  proof -
    have "latestDistance ?D = Math_hypot (latestDistanceX ?D) (latestDistanceY ?D)"
      unfolding d by (simp only: fire_fields)
    with that dx dy show ?thesis by simp
  qed
  show ?thesis
    unfolding Let_def
  proof (intro conjI impI)
    show "currentX ?D = lastX s" by (rule cur(1))
    show "currentY ?D = lastY s" by (rule cur(2))
    show "fst (dispatch ?e' now s) = ?D\<lparr>event := ?e'\<rparr>" by (rule ind)
    show "latestSpeedX ?D = Fin 0" by (rule sx)
    show "latestSpeedY ?D = Fin 0" by (rule sy)
    show "latestSpeed ?D = Fin 0" by (rule sl)
    show "latestDistanceX ?D = Fin 0" if "lastX s \<noteq> None" using that by (rule dx)
    show "latestDistanceY ?D = Fin 0" if "lastY s \<noteq> None" using that by (rule dy)
    show "latestDistance ?D = Fin 0" if "lastX s \<noteq> None \<and> lastY s \<noteq> None"
      using that by (rule dl)
  qed
qed

theorem C10_terminal_latest_witness:
  "lastX moved_to_3_4 = Some 3 \<and> lastY moved_to_3_4 = Some 4 \<and>
   currentX (fst (dispatch (touch Touchend 9 9) 20 moved_to_3_4)) = Some 3 \<and>
   currentY (fst (dispatch (touch Touchend 9 9) 20 moved_to_3_4)) = Some 4 \<and>
   latestDistance (fst (dispatch (touch Touchend 9 9) 20 moved_to_3_4)) = Fin 0 \<and>
   latestSpeed (fst (dispatch (touch Touchend 9 9) 20 moved_to_3_4)) = Fin 0 \<and>
   latestDistanceX (fst (dispatch (touch Touchcancel 9 9) 20 moved_to_3_4)) = Fin 0"
proof -
  have l: "lastX moved_to_3_4 = Some 3" "lastY moved_to_3_4 = Some 4"
    by (simp_all add: eval_defs)
  have n: "lastX moved_to_3_4 \<noteq> None" "lastY moved_to_3_4 \<noteq> None"
    by (simp_all only: l option.distinct not_False_eq_True)
  have k1: "etype (touch Touchend 9 9) = Touchend \<or> etype (touch Touchend 9 9) = Touchcancel"
    by (simp add: touch_def)
  have k2: "etype (touch Touchcancel 9 9) = Touchend \<or> etype (touch Touchcancel 9 9) = Touchcancel"
    by (simp add: touch_def)
  note E = C10_terminal_latest [OF k1, of 20 moved_to_3_4 0 0, unfolded Let_def]
  note C = C10_terminal_latest [OF k2, of 20 moved_to_3_4 0 0, unfolded Let_def]
  have "currentX (fst (dispatch (touch Touchend 9 9) 20 moved_to_3_4)) = Some 3"
    using E l(1) by simp
  moreover have "currentY (fst (dispatch (touch Touchend 9 9) 20 moved_to_3_4)) = Some 4"
    using E l(2) by simp
  moreover have "latestDistance (fst (dispatch (touch Touchend 9 9) 20 moved_to_3_4)) = Fin 0"
    using E n by blast
  moreover have "latestSpeed (fst (dispatch (touch Touchend 9 9) 20 moved_to_3_4)) = Fin 0"
    using E by blast
  moreover have "latestDistanceX (fst (dispatch (touch Touchcancel 9 9) 20 moved_to_3_4)) = Fin 0"
    using C n by blast
  ultimately show ?thesis
    using l by blast
qed

text \<open>
  Claim C10 as stated fails when a \<open>touchend\<close> is the first event handled: \<open>lastX\<close> is
  \<open>undefined\<close>, so \<open>currentX\<close> is \<open>undefined\<close> and \<open>latestDistanceX\<close> is NaN, not 0.
\<close>

theorem C10_counterexample:
  "currentX (fst (dispatch (touch Touchend 5 0) 7 initial_session)) = None \<and>
   latestDistanceX (fst (dispatch (touch Touchend 5 0) 7 initial_session)) = NaN \<and>
   latestDistanceX (fst (dispatch (touch Touchend 5 0) 7 initial_session)) \<noteq> Fin 0 \<and>
   latestDistance (fst (dispatch (touch Touchend 5 0) 7 initial_session)) \<noteq> Fin 0"
  by (simp add: eval_defs)

section \<open>The logging flag\<close>

text \<open>
  Claim C9. \<open>logEvents\<close> starts false. \<open>telemetryLoggingEnabled\<close> returns the flag and
  changes no variable. \<open>toggleTelemetryLogging\<close> negates the flag, returns the new value
  and changes nothing else. Two toggles in a row restore the variables, and from the
  initial variables the first toggle returns true and the second false.
\<close>

theorem C9_toggle:
  "logEvents initial_session = False \<and>
   telemetryLoggingEnabled s = (logEvents s, s) \<and>
   toggleTelemetryLogging s = (\<not> logEvents s, s\<lparr>logEvents := \<not> logEvents s\<rparr>) \<and>
   snd (toggleTelemetryLogging (snd (toggleTelemetryLogging s))) = s \<and>
   fst (toggleTelemetryLogging (snd (toggleTelemetryLogging s))) = logEvents s \<and>
   fst (telemetryLoggingEnabled initial_session) = False \<and>
   fst (toggleTelemetryLogging initial_session) = True \<and>
   fst (telemetryLoggingEnabled (snd (toggleTelemetryLogging initial_session))) = True \<and>
   fst (toggleTelemetryLogging (snd (toggleTelemetryLogging initial_session))) = False"
  by (simp add: telemetryLoggingEnabled_def toggleTelemetryLogging_def initial_session_def Let_def)

end
